theory Spec2Isabelle
  imports Complex_Main
begin

section \<open>Numbers, vectors and strings of the JavaScript sources\<close>

text \<open>
  A JavaScript number is an IEEE double. The model takes a finite number as the real it
  denotes and rounds the result of every addition, subtraction, multiplication and
  division to the nearest double, a tie going to the even one (\<open>fl\<close>): with 53
  significant bits, and with the fixed spacing of the subnormal numbers below
  \<open>2\<^sup>-\<^sup>1\<^sup>0\<^sup>2\<^sup>2\<close>. The values that are not finite numbers (\<^verbatim>\<open>Infinity\<close>, which
  replaces a result of magnitude \<open>2\<^sup>1\<^sup>0\<^sup>2\<^sup>4\<close> or more, and \<^verbatim>\<open>NaN\<close>) and the sign
  of zero are outside the model; the program divides by 2 and by the block size only,
  which the constructor sets to 1 and nothing changes. Grid coordinates are what \<^verbatim>\<open>Math.floor\<close> and
  \<^verbatim>\<open>Math.round\<close> return: integers; both are exact, and \<^verbatim>\<open>Math.round\<close> rounds a
  tie upwards, that is \<open>\<lfloor>v + 1/2\<rfloor>\<close>.
\<close>

definition rne :: "real \<Rightarrow> int" where
  "rne r =
     (let f = \<lfloor>r\<rfloor>; d = r - of_int f
      in if d < 1 / 2 then f else if 1 / 2 < d then f + 1 else if even f then f else f + 1)"

definition exponent :: "real \<Rightarrow> int" where
  "exponent v = max \<lfloor>log 2 \<bar>v\<bar>\<rfloor> (- 1022)"

definition ulp :: "real \<Rightarrow> real" where
  "ulp v = 2 powi (exponent v - 52)"

definition fl :: "real \<Rightarrow> real" where
  "fl v = (if v = 0 then 0 else of_int (rne (v / ulp v)) * ulp v)"

definition fadd :: "real \<Rightarrow> real \<Rightarrow> real" where
  "fadd a b = fl (a + b)"

definition fsub :: "real \<Rightarrow> real \<Rightarrow> real" where
  "fsub a b = fl (a - b)"

definition fmul :: "real \<Rightarrow> real \<Rightarrow> real" where
  "fmul a b = fl (a * b)"

definition fdiv :: "real \<Rightarrow> real \<Rightarrow> real" where
  "fdiv a b = fl (a / b)"

record vector3 =
  vx :: real
  vy :: real
  vz :: real

record gridPos =
  gx :: int
  gy :: int
  gz :: int

definition Math_floor :: "real \<Rightarrow> int" where
  "Math_floor v = \<lfloor>v\<rfloor>"

definition Math_round :: "real \<Rightarrow> int" where
  "Math_round v = \<lfloor>v + 1 / 2\<rfloor>"

text \<open>\<^verbatim>\<open>Vector3.add\<close> and \<^verbatim>\<open>Vector3.multiplyScalar\<close> work on each component.\<close>

definition vadd :: "vector3 \<Rightarrow> vector3 \<Rightarrow> vector3" where
  "vadd a b = \<lparr>vx = fadd (vx a) (vx b), vy = fadd (vy a) (vy b), vz = fadd (vz a) (vz b)\<rparr>"

definition multiplyScalar :: "vector3 \<Rightarrow> real \<Rightarrow> vector3" where
  "multiplyScalar a k = \<lparr>vx = fmul (vx a) k, vy = fmul (vy a) k, vz = fmul (vz a) k\<rparr>"

text \<open>
  A lookup \<^verbatim>\<open>obj[key]\<close> in a plain object also finds what every object inherits from
  \<^verbatim>\<open>Object.prototype\<close>; each of these inherited values is truthy.
\<close>

definition Object_prototype_keys :: "string list" where
  "Object_prototype_keys =
     [''constructor'', ''hasOwnProperty'', ''isPrototypeOf'', ''propertyIsEnumerable'',
      ''toLocaleString'', ''toString'', ''valueOf'', ''__proto__'', ''__defineGetter__'',
      ''__defineSetter__'', ''__lookupGetter__'', ''__lookupSetter__'']"

text \<open>
  A template literal \<^verbatim>\<open>`${n}`\<close> prints an integer in decimal digits, with a
  leading minus sign below zero (the form JavaScript uses for every integer of magnitude
  under \<open>10\<^sup>2\<^sup>1\<close>).
\<close>

definition digitChar :: "nat \<Rightarrow> char" where
  "digitChar d = ''0123456789'' ! d"

fun digitsOf :: "nat \<Rightarrow> string" where
  "digitsOf n = (if n < 10 then [digitChar n] else digitsOf (n div 10) @ [digitChar (n mod 10)])"

declare digitsOf.simps [simp del]

definition numberToString :: "int \<Rightarrow> string" where
  "numberToString i = (if i < 0 then CHR ''-'' # digitsOf (nat (- i)) else digitsOf (nat i))"

text \<open>
  \<^verbatim>\<open>Number(str)\<close> on the strings this program builds: an optional sign and decimal
  digits give the integer, the empty string gives 0. \<open>None\<close> stands for every other
  result (\<^verbatim>\<open>NaN\<close>, or a number that is not written as a plain integer).
\<close>

definition isDigit :: "char \<Rightarrow> bool" where
  "isDigit c = (48 \<le> (of_char c :: nat) \<and> (of_char c :: nat) \<le> 57)"

definition digitsValue :: "string \<Rightarrow> nat" where
  "digitsValue cs = foldl (\<lambda>a c. 10 * a + ((of_char c :: nat) - 48)) 0 cs"

definition unsignedNumber :: "string \<Rightarrow> nat option" where
  "unsignedNumber cs = (if cs \<noteq> [] \<and> list_all isDigit cs then Some (digitsValue cs) else None)"

fun Number :: "string \<Rightarrow> int option" where
  "Number [] = Some 0"
| "Number (c # cs) =
     (if c = CHR ''-'' then map_option (\<lambda>n. - int n) (unsignedNumber cs)
      else if c = CHR ''+'' then map_option int (unsignedNumber cs)
      else map_option int (unsignedNumber (c # cs)))"

text \<open>\<^verbatim>\<open>str.split(',')\<close>: the pieces between the commas, one more than there are commas.\<close>

fun split_comma :: "string \<Rightarrow> string list" where
  "split_comma [] = [[]]"
| "split_comma (c # cs) =
     (if c = CHR '','' then [] # split_comma cs
      else (case split_comma cs of
              [] \<Rightarrow> [[c]]
            | w # ws \<Rightarrow> (c # w) # ws))"

section \<open>BlockSystem.js\<close>

datatype block_type = GRASS | DIRT | STONE | WOOD | WATER | SAND

definition BLOCK_TYPE_keys :: "block_type list" where
  "BLOCK_TYPE_keys = [GRASS, DIRT, STONE, WOOD, WATER, SAND]"


fun block_name :: "block_type \<Rightarrow> string" where
  "block_name GRASS = ''Grass''"
| "block_name DIRT = ''Dirt''"
| "block_name STONE = ''Stone''"
| "block_name WOOD = ''Wood''"
| "block_name WATER = ''Water''"
| "block_name SAND = ''Sand''"

text \<open>
  A \<^verbatim>\<open>THREE.Mesh\<close> is an object with an identity; \<open>meshId\<close> is that identity, taken
  from a counter of the state. The material is the entry of \<^verbatim>\<open>blockMaterials\<close> the
  mesh was built with (\<open>None\<close> when the lookup gave \<^verbatim>\<open>undefined\<close>).
\<close>

record mesh =
  meshId :: nat
  meshPosition :: vector3
  meshMaterial :: "block_type option"

text \<open>
  The fields of a \<^verbatim>\<open>BlockSystem\<close>: \<open>blocks\<close> is the \<^verbatim>\<open>Map\<close> from keys to meshes,
  \<open>scene\<close> the children of the scene in the order they were added (the highlight block
  is the first one, with identity 0).
\<close>

text \<open>
  The selected block type is an entry of \<^verbatim>\<open>BLOCK_TYPES\<close>, or one of the values the
  lookup \<^verbatim>\<open>BLOCK_TYPES[type]\<close> inherits (none of them has the name of a block type).
\<close>

datatype selection = OwnType block_type | InheritedValue

record block_system =
  blocks :: "string \<rightharpoonup> mesh"
  scene :: "mesh list"
  blockSize :: real
  selectedBlockType :: selection
  highlightPosition :: vector3
  highlightVisible :: bool
  nextMeshId :: nat

definition origin3 :: vector3 where
  "origin3 = \<lparr>vx = 0, vy = 0, vz = 0\<rparr>"

definition highlightMesh :: mesh where
  "highlightMesh = \<lparr>meshId = 0, meshPosition = origin3, meshMaterial = None\<rparr>"

definition new_BlockSystem :: block_system where
  "new_BlockSystem =
     \<lparr>blocks = Map.empty, scene = [highlightMesh], blockSize = 1, selectedBlockType = OwnType GRASS,
      highlightPosition = origin3, highlightVisible = False, nextMeshId = 1\<rparr>"


definition worldToGrid :: "block_system \<Rightarrow> vector3 \<Rightarrow> gridPos" where
  "worldToGrid s position =
     \<lparr>gx = Math_floor (fdiv (vx position) (blockSize s)),
      gy = Math_floor (fdiv (vy position) (blockSize s)),
      gz = Math_floor (fdiv (vz position) (blockSize s))\<rparr>"

definition gridToWorld :: "block_system \<Rightarrow> gridPos \<Rightarrow> vector3" where
  "gridToWorld s g =
     \<lparr>vx = fadd (fmul (of_int (gx g)) (blockSize s)) (fdiv (blockSize s) 2),
      vy = fadd (fmul (of_int (gy g)) (blockSize s)) (fdiv (blockSize s) 2),
      vz = fadd (fmul (of_int (gz g)) (blockSize s)) (fdiv (blockSize s) 2)\<rparr>"

definition positionToKey :: "gridPos \<Rightarrow> string" where
  "positionToKey pos =
     numberToString (gx pos) @ '','' @ numberToString (gy pos) @ '','' @ numberToString (gz pos)"

text \<open>
  \<^verbatim>\<open>const [x, y, z] = key.split(',').map(Number)\<close> takes the first three pieces and
  leaves a missing one \<^verbatim>\<open>undefined\<close>. The result is \<open>None\<close> when a component is not
  an integer (\<^verbatim>\<open>undefined\<close>, \<^verbatim>\<open>NaN\<close>, or outside the integers \<open>Number\<close> models).
\<close>

definition keyToPosition :: "string \<Rightarrow> gridPos option" where
  "keyToPosition key =
     (case map Number (split_comma key) of
        Some a # Some b # Some c # _ \<Rightarrow> Some \<lparr>gx = a, gy = b, gz = c\<rparr>
      | _ \<Rightarrow> None)"

definition hasBlock :: "block_system \<Rightarrow> gridPos \<Rightarrow> bool" where
  "hasBlock s g = (blocks s (positionToKey g) \<noteq> None)"

text \<open>
  What the raycaster hands over: the hit point; the face of the hit is passed beside it.
  \<open>cornerOf\<close> is the position both the highlight and a placed mesh are set to: the centre
  \<open>gridToWorld g\<close> of the cell moved back by half a block on every axis.
\<close>

record intersection =
  point :: vector3

record face =
  normal :: vector3

definition cornerOf :: "block_system \<Rightarrow> gridPos \<Rightarrow> vector3" where
  "cornerOf s g =
     (let worldPos = gridToWorld s g
      in \<lparr>vx = fsub (vx worldPos) (fdiv (blockSize s) 2),
          vy = fsub (vy worldPos) (fdiv (blockSize s) 2),
          vz = fsub (vz worldPos) (fdiv (blockSize s) 2)\<rparr>)"

definition updateHighlightPosition ::
  "block_system \<Rightarrow> intersection option \<Rightarrow> face \<Rightarrow> gridPos option \<times> block_system" where
  "updateHighlightPosition s hit f =
     (case hit of
        None \<Rightarrow> (None, s\<lparr>highlightVisible := False\<rparr>)
      | Some i \<Rightarrow>
          (let position = vadd (point i) (multiplyScalar (normal f) (fdiv (blockSize s) 2));
               g = worldToGrid s position
           in if hasBlock s g then (None, s\<lparr>highlightVisible := False\<rparr>)
              else (Some g, s\<lparr>highlightPosition := cornerOf s g, highlightVisible := True\<rparr>)))"

definition placeBlock :: "block_system \<Rightarrow> gridPos \<Rightarrow> bool \<times> block_system" where
  "placeBlock s g =
     (if hasBlock s g then (False, s)
      else
        (let blockTypeKey =
               (case selectedBlockType s of
                  OwnType ty \<Rightarrow> find (\<lambda>k. block_name k = block_name ty) BLOCK_TYPE_keys
                | InheritedValue \<Rightarrow> None);
             blockMesh = \<lparr>meshId = nextMeshId s, meshPosition = cornerOf s g, meshMaterial = blockTypeKey\<rparr>
         in (True, s\<lparr>scene := scene s @ [blockMesh],
                     blocks := (blocks s)(positionToKey g \<mapsto> blockMesh),
                     nextMeshId := Suc (nextMeshId s)\<rparr>)))"

definition scene_remove :: "mesh list \<Rightarrow> mesh \<Rightarrow> mesh list" where
  "scene_remove ms m = filter (\<lambda>c. meshId c \<noteq> meshId m) ms"

definition removeBlock :: "block_system \<Rightarrow> gridPos \<Rightarrow> bool \<times> block_system" where
  "removeBlock s g =
     (let key = positionToKey g
      in case blocks s key of
           Some blockMesh \<Rightarrow>
             (True, s\<lparr>scene := scene_remove (scene s) blockMesh, blocks := (blocks s)(key := None)\<rparr>)
         | None \<Rightarrow> (False, s))"

definition handleClick ::
  "block_system \<Rightarrow> intersection option \<Rightarrow> face \<Rightarrow> bool \<Rightarrow> bool \<times> block_system" where
  "handleClick s hit f isRightClick =
     (case hit of
        None \<Rightarrow> (False, s)
      | Some i \<Rightarrow>
          if isRightClick then removeBlock s (worldToGrid s (point i))
          else placeBlock s
                 (worldToGrid s (vadd (point i) (multiplyScalar (normal f) (fdiv (blockSize s) 2)))))"

text \<open>
  The rendered block: \<^verbatim>\<open>BoxGeometry(blockSize, blockSize, blockSize)\<close> is a cube centred on
  the position of its mesh. \<open>onBoxFace s m n p\<close> says that the point \<open>p\<close> lies on the face
  of the cube of mesh \<open>m\<close> whose outward normal is the axis-aligned unit vector \<open>n\<close>;
  \<open>axisNormal\<close> says that a vector is one of those six normals.
\<close>

definition axisNormal :: "vector3 \<Rightarrow> bool" where
  "axisNormal n =
     (\<bar>vx n\<bar> + \<bar>vy n\<bar> + \<bar>vz n\<bar> = 1 \<and> vx n \<in> \<int> \<and> vy n \<in> \<int> \<and> vz n \<in> \<int>)"

definition onBoxFace :: "block_system \<Rightarrow> mesh \<Rightarrow> vector3 \<Rightarrow> vector3 \<Rightarrow> bool" where
  "onBoxFace s m n p =
     (let h = blockSize s / 2; c = meshPosition m
      in \<bar>vx p - vx c\<bar> \<le> h \<and> \<bar>vy p - vy c\<bar> \<le> h \<and> \<bar>vz p - vz c\<bar> \<le> h \<and>
         (vx p - vx c) * vx n + (vy p - vy c) * vy n + (vz p - vz c) * vz n = h)"




definition blockMeshes :: "block_system \<Rightarrow> mesh list" where
  "blockMeshes s = filter (\<lambda>m. meshId m \<noteq> meshId highlightMesh) (scene s)"

text \<open>
  What the map of blocks and the scene owe each other: the meshes of the map are the block
  meshes of the scene, each stored under one key only and placed where \<open>placeBlock\<close> puts
  the mesh of the cell of that key, and every mesh has an identity of its own.
\<close>

definition wellPlaced :: "block_system \<Rightarrow> bool" where
  "wellPlaced s =
     (0 < nextMeshId s \<and>
      distinct (map meshId (scene s)) \<and>
      list_all (\<lambda>m. meshId m < nextMeshId s) (scene s) \<and>
      (\<forall>k m. blocks s k = Some m \<longrightarrow>
         m \<in> set (blockMeshes s) \<and> (\<exists>g. k = positionToKey g \<and> meshPosition m = cornerOf s g)) \<and>
      (\<forall>k k' m. blocks s k = Some m \<and> blocks s k' = Some m \<longrightarrow> k = k') \<and>
      (\<forall>m \<in> set (blockMeshes s). \<exists>k. blocks s k = Some m))"

section \<open>main.js: the BlockBuilder application\<close>

text \<open>
  A node of the scene graph (\<^verbatim>\<open>THREE.Object3D\<close>): its identity, its position, the
  \<^verbatim>\<open>userData.positionKey\<close> it carries (if any) and its parent (\<open>None\<close> is
  \<^verbatim>\<open>null\<close>). The scene, the ground plane, the group of blocks and the preview block are
  built once by the constructor; every other node is a clone of a loaded model, or a part
  of one.
\<close>

datatype object3d =
  Object3D (oid: nat) (position: vector3) (positionKey: "string option") (parent: "object3d option")

definition sceneObj :: object3d where
  "sceneObj = Object3D 0 origin3 None None"

definition plane :: object3d where
  "plane = Object3D 1 origin3 None (Some sceneObj)"

definition blocksGroup :: object3d where
  "blocksGroup = Object3D 2 origin3 None (Some sceneObj)"

text \<open>
  One entry of what \<^verbatim>\<open>raycaster.intersectObjects\<close> returns: the object that was hit, the
  hit point, the normal of the hit face (\<^verbatim>\<open>intersect.face.normal\<close>), and \<open>worldNormal\<close>,
  the value of \<^verbatim>\<open>intersect.face.normal.clone().applyMatrix3(normalMatrix).normalize()\<close>.
\<close>

record intersect =
  object :: object3d
  hitPoint :: vector3
  faceNormal :: vector3
  worldNormal :: vector3

text \<open>
  What \<^verbatim>\<open>GLTFLoader\<close> hands to its callback: an object with the properties of
  \<open>gltf_keys\<close>, all truthy but \<^verbatim>\<open>scene\<close>, which is \<^verbatim>\<open>undefined\<close> when the file
  has no scene. A looked-up value is \<^verbatim>\<open>undefined\<close>, such a loaded model, or some other
  truthy value, which has no \<^verbatim>\<open>scene\<close> to clone.
\<close>

datatype gltf = Gltf (hasScene: bool)

definition gltf_keys :: "string list" where
  "gltf_keys = [''scene'', ''scenes'', ''animations'', ''cameras'', ''asset'', ''parser'', ''userData'']"

datatype js_value = Undefined | LoadedModel gltf | OtherValue

datatype js_error = TypeError

text \<open>
  The fields of the application. \<open>children\<close> are the children of \<^verbatim>\<open>blocksGroup\<close>.
  \<^verbatim>\<open>blockModels\<close> is a plain object: \<open>blockModels\<close> holds its own properties, the loaded
  models by id, and \<open>blockModelsProto\<close> the model that became its prototype through an
  assignment to the key \<^verbatim>\<open>__proto__\<close> (\<open>None\<close> while the prototype is
  \<^verbatim>\<open>Object.prototype\<close>). \<open>console\<close> holds the warnings written so far, \<open>nextOid\<close> the
  identity the next clone gets.
\<close>

record block_builder =
  children :: "object3d list"
  occupiedPositions :: "string set"
  blockModels :: "string \<rightharpoonup> gltf"
  blockModelsProto :: "gltf option"
  selectedModel :: "string option"
  previewPosition :: vector3
  previewVisible :: bool
  isDragging :: bool
  dragStartX :: real
  dragStartY :: real
  dragThreshold :: real
  clickedOnUI :: bool
  console :: "string list"
  nextOid :: nat

definition new_BlockBuilder :: block_builder where
  "new_BlockBuilder =
     \<lparr>children = [], occupiedPositions = {}, blockModels = Map.empty, blockModelsProto = None,
      selectedModel = None,
      previewPosition = origin3, previewVisible = False, isDragging = False,
      dragStartX = 0, dragStartY = 0, dragThreshold = 5, clickedOnUI = False,
      console = [], nextOid = 4\<rparr>"

text \<open>
  The lookup \<^verbatim>\<open>this.blockModels[id]\<close>: an own property, else what the prototype chain
  gives, and the assignment \<^verbatim>\<open>this.blockModels[id] = gltf\<close>, which for the key
  \<^verbatim>\<open>__proto__\<close> replaces the prototype.
\<close>

definition blockModels_get :: "block_builder \<Rightarrow> string \<Rightarrow> js_value" where
  "blockModels_get s modelId =
     (case blockModels s modelId of
        Some g \<Rightarrow> LoadedModel g
      | None \<Rightarrow>
          (case blockModelsProto s of
             None \<Rightarrow> if modelId \<in> set Object_prototype_keys then OtherValue else Undefined
           | Some g \<Rightarrow>
               if modelId = ''__proto__'' then LoadedModel g
               else if modelId = ''scene'' then (if hasScene g then OtherValue else Undefined)
               else if modelId \<in> set gltf_keys \<or> modelId \<in> set Object_prototype_keys
               then OtherValue else Undefined))"

definition blockModels_set :: "block_builder \<Rightarrow> string \<Rightarrow> gltf \<Rightarrow> block_builder" where
  "blockModels_set s modelId g =
     (if modelId = ''__proto__'' then s\<lparr>blockModelsProto := Some g\<rparr>
      else s\<lparr>blockModels := (blockModels s)(modelId \<mapsto> g)\<rparr>)"

text \<open>The callback of \<^verbatim>\<open>gltfLoader.load\<close> in \<^verbatim>\<open>updatePagination\<close>, and \<^verbatim>\<open>selectModel\<close>.\<close>

definition selectModel :: "block_builder \<Rightarrow> string \<Rightarrow> block_builder" where
  "selectModel s modelId = s\<lparr>selectedModel := Some modelId\<rparr>"

definition truthy :: "string option \<Rightarrow> bool" where
  "truthy v = (case v of None \<Rightarrow> False | Some str \<Rightarrow> str \<noteq> [])"

definition modelLoaded :: "block_builder \<Rightarrow> string \<Rightarrow> gltf \<Rightarrow> bool \<Rightarrow> block_builder" where
  "modelLoaded s modelId g firstOfFirstPage =
     (let s1 = blockModels_set s modelId g
      in if firstOfFirstPage \<and> \<not> truthy (selectedModel s1) then selectModel s1 modelId else s1)"

definition getKey :: "vector3 \<Rightarrow> string" where
  "getKey pos =
     numberToString (Math_round (vx pos)) @ '','' @ numberToString (Math_round (vy pos)) @ '','' @
     numberToString (Math_round (vz pos))"

definition roundVector :: "vector3 \<Rightarrow> vector3" where
  "roundVector pos =
     \<lparr>vx = of_int (Math_round (vx pos)), vy = of_int (Math_round (vy pos)),
      vz = of_int (Math_round (vz pos))\<rparr>"

text \<open>
  \<open>modelLoadedFor s\<close> says that a model is selected (not \<^verbatim>\<open>null\<close>, not the empty
  string) and that the lookup of its id gives a loaded model with a scene. \<open>roundVector\<close>
  is the position \<^verbatim>\<open>addBlock\<close> gives the clone.
\<close>

definition modelLoadedFor :: "block_builder \<Rightarrow> bool" where
  "modelLoadedFor s =
     (case selectedModel s of
        None \<Rightarrow> False
      | Some m \<Rightarrow> m \<noteq> [] \<and> blockModels_get s m = LoadedModel (Gltf True))"

text \<open>
  \<^verbatim>\<open>addBlock\<close>: the guard \<^verbatim>\<open>!this.selectedModel || !this.blockModels[this.selectedModel]\<close>,
  the test of the key, then \<^verbatim>\<open>gltf.scene.clone()\<close>, which throws a \<^verbatim>\<open>TypeError\<close> when
  the value looked up has no scene. Nothing has been changed when it throws.
\<close>

definition addBlock :: "block_builder \<Rightarrow> vector3 \<Rightarrow> js_error + bool \<times> block_builder" where
  "addBlock s pos =
     (case selectedModel s of
        None \<Rightarrow> Inr (False, s\<lparr>console := console s @ [''No model selected or model not loaded yet'']\<rparr>)
      | Some m \<Rightarrow>
          if m = [] \<or> blockModels_get s m = Undefined
          then Inr (False, s\<lparr>console := console s @ [''No model selected or model not loaded yet'']\<rparr>)
          else
            (let key = getKey pos
             in if key \<in> occupiedPositions s then Inr (False, s)
                else
                  (case blockModels_get s m of
                     LoadedModel g \<Rightarrow>
                       if hasScene g
                       then
                         (let modelScene =
                                Object3D (nextOid s) (roundVector pos) (Some key) (Some blocksGroup)
                          in Inr (True, s\<lparr>children := children s @ [modelScene],
                                            occupiedPositions := insert key (occupiedPositions s),
                                            nextOid := Suc (nextOid s)\<rparr>))
                       else Inl TypeError
                   | _ \<Rightarrow> Inl TypeError)))"

text \<open>
  \<^verbatim>\<open>removeBlock(object)\<close> of the application (\<open>removeBlockObject\<close> here, beside the
  \<open>removeBlock\<close> of \<^verbatim>\<open>BlockSystem\<close>): the walk to the top-level parent, then the
  removal of its key and of the object itself.
\<close>

fun topObject :: "object3d \<Rightarrow> object3d" where
  "topObject (Object3D i pos k par) =
     (case par of
        None \<Rightarrow> Object3D i pos k par
      | Some p \<Rightarrow> if oid p = oid blocksGroup then Object3D i pos k par else topObject p)"

definition group_remove :: "object3d list \<Rightarrow> object3d \<Rightarrow> object3d list" where
  "group_remove cs ob = filter (\<lambda>c. oid c \<noteq> oid ob) cs"

definition removeBlockObject :: "block_builder \<Rightarrow> object3d \<Rightarrow> block_builder" where
  "removeBlockObject s ob =
     (let owner = topObject ob;
          s1 = (case positionKey owner of
                  None \<Rightarrow> s
                | Some k \<Rightarrow> if k \<noteq> [] then s\<lparr>occupiedPositions := occupiedPositions s - {k}\<rparr> else s)
      in s1\<lparr>children := group_remove (children s1) owner\<rparr>)"

text \<open>The walk to the parent model in \<^verbatim>\<open>updatePreview\<close>, which also stops at the plane.\<close>

fun targetObject :: "object3d \<Rightarrow> object3d" where
  "targetObject (Object3D i pos k par) =
     (case par of
        None \<Rightarrow> Object3D i pos k par
      | Some p \<Rightarrow>
          if oid p = oid blocksGroup \<or> i = oid plane then Object3D i pos k par else targetObject p)"

definition updatePreview :: "block_builder \<Rightarrow> intersect list \<Rightarrow> block_builder" where
  "updatePreview s intersects =
     (case intersects of
        [] \<Rightarrow> s\<lparr>previewVisible := False\<rparr>
      | hit # _ \<Rightarrow>
          (let target = targetObject (object hit);
               previewPos =
                 (if oid target = oid plane
                  then \<lparr>vx = vx (hitPoint hit), vy = 0, vz = vz (hitPoint hit)\<rparr>
                  else vadd (position target) (worldNormal hit))
           in s\<lparr>previewPosition := roundVector previewPos, previewVisible := True\<rparr>))"

definition onMouseMove :: "block_builder \<Rightarrow> real \<Rightarrow> real \<Rightarrow> intersect list \<Rightarrow> block_builder" where
  "onMouseMove s clientX clientY intersects =
     (let s1 = (if \<not> isDragging s \<and>
                   (\<bar>fsub clientX (dragStartX s)\<bar> > dragThreshold s \<or>
                    \<bar>fsub clientY (dragStartY s)\<bar> > dragThreshold s)
                then s\<lparr>isDragging := True\<rparr> else s)
      in updatePreview s1 intersects)"

text \<open>
  \<open>onUI\<close> is the value of \<^verbatim>\<open>event.target.closest(...) !== null\<close>; \<open>intersects\<close> is
  the result of casting the ray against the children of \<^verbatim>\<open>blocksGroup\<close>.
\<close>

definition onMouseDown ::
  "block_builder \<Rightarrow> nat \<Rightarrow> real \<Rightarrow> real \<Rightarrow> bool \<Rightarrow> intersect list \<Rightarrow> block_builder" where
  "onMouseDown s button clientX clientY onUI intersects =
     (let s1 = s\<lparr>clickedOnUI := onUI, dragStartX := clientX, dragStartY := clientY,
                 isDragging := False\<rparr>
      in if button = 2
         then (case intersects of [] \<Rightarrow> s1 | hit # _ \<Rightarrow> removeBlockObject s1 (object hit))
         else s1)"

text \<open>
  \<^verbatim>\<open>onMouseUp\<close> uses the position of the event for the ray only, which it then does not
  cast. When \<^verbatim>\<open>addBlock\<close> throws, the handler ends there, before it clears the flags.
\<close>

definition onMouseUp :: "block_builder \<Rightarrow> nat \<Rightarrow> real \<Rightarrow> real \<Rightarrow> js_error + block_builder" where
  "onMouseUp s button clientX clientY =
     (if button = 0 \<and> \<not> isDragging s \<and> \<not> clickedOnUI s \<and> previewVisible s
      then (case addBlock s (previewPosition s) of
              Inl e \<Rightarrow> Inl e
            | Inr (placed, s1) \<Rightarrow> Inr (s1\<lparr>isDragging := False, clickedOnUI := False\<rparr>))
      else Inr (s\<lparr>isDragging := False, clickedOnUI := False\<rparr>))"

text \<open>
  The loop of the reset key: \<^verbatim>\<open>while (children.length > 0) blocksGroup.remove(children[0])\<close>.
\<close>

function removeAllChildren :: "object3d list \<Rightarrow> object3d list" where
  "removeAllChildren [] = []"
| "removeAllChildren (c # cs) = removeAllChildren (group_remove (c # cs) c)"
  by pat_completeness auto
termination
  by (relation "measure length") (auto simp add: group_remove_def less_Suc_eq_le)

definition onKeyDown :: "block_builder \<Rightarrow> string \<Rightarrow> block_builder" where
  "onKeyDown s key =
     (if key = ''r'' \<or> key = ''R''
      then s\<lparr>children := removeAllChildren (children s), occupiedPositions := {}\<rparr>
      else s)"


text \<open>
  The calls that change the application: its methods and event handlers. A call that
  throws leaves the state it had reached, which here is the state before the call.
  \<open>inScene\<close> says that the objects handed to a removal belong to the scene, as the objects
  a ray cast against the children of \<^verbatim>\<open>blocksGroup\<close> finds do.
\<close>

datatype call =
    AddBlock vector3
  | RemoveBlock object3d
  | OnMouseMove real real "intersect list"
  | OnMouseDown nat real real bool "intersect list"
  | OnMouseUp nat real real
  | OnKeyDown string
  | SelectModel string
  | ModelLoaded string gltf bool

fun perform :: "block_builder \<Rightarrow> call \<Rightarrow> block_builder" where
  "perform s (AddBlock pos) = (case addBlock s pos of Inl e \<Rightarrow> s | Inr (placed, s1) \<Rightarrow> s1)"
| "perform s (RemoveBlock ob) = removeBlockObject s ob"
| "perform s (OnMouseMove clientX clientY intersects) = onMouseMove s clientX clientY intersects"
| "perform s (OnMouseDown button clientX clientY onUI intersects) =
     onMouseDown s button clientX clientY onUI intersects"
| "perform s (OnMouseUp button clientX clientY) =
     (case onMouseUp s button clientX clientY of Inl e \<Rightarrow> s | Inr s1 \<Rightarrow> s1)"
| "perform s (OnKeyDown key) = onKeyDown s key"
| "perform s (SelectModel modelId) = selectModel s modelId"
| "perform s (ModelLoaded modelId g firstOfFirstPage) = modelLoaded s modelId g firstOfFirstPage"



text \<open>The grid cell of a position, as \<open>addBlock\<close> and \<open>getKey\<close> round it.\<close>

definition cellOf :: "vector3 \<Rightarrow> gridPos" where
  "cellOf pos = \<lparr>gx = Math_round (vx pos), gy = Math_round (vy pos), gz = Math_round (vz pos)\<rparr>"


section \<open>The first version of main.js: blocks as coloured cubes\<close>

text \<open>
  The older \<^verbatim>\<open>BlockBuilder\<close> places on the mouse-down itself and casts its rays against
  the cubes directly. \<open>color\<close> is the entry of \<^verbatim>\<open>this.colors\<close> that \<^verbatim>\<open>Math.random\<close>
  picked.
\<close>

definition addBlock_v1 :: "block_builder \<Rightarrow> vector3 \<Rightarrow> nat \<Rightarrow> block_builder" where
  "addBlock_v1 s pos color =
     (let block = Object3D (nextOid s) (roundVector pos) None (Some blocksGroup)
      in s\<lparr>children := children s @ [block],
           occupiedPositions := insert (getKey (position block)) (occupiedPositions s),
           nextOid := Suc (nextOid s)\<rparr>)"

definition removeBlock_v1 :: "block_builder \<Rightarrow> object3d \<Rightarrow> block_builder" where
  "removeBlock_v1 s block =
     (let key = getKey (position block)
      in s\<lparr>children := group_remove (children s) block,
           occupiedPositions := occupiedPositions s - {key}\<rparr>)"

definition newPos_v1 :: "intersect \<Rightarrow> vector3" where
  "newPos_v1 hit =
     (if oid (object hit) = oid plane
      then \<lparr>vx = vx (hitPoint hit), vy = 0, vz = vz (hitPoint hit)\<rparr>
      else vadd (position (object hit)) (faceNormal hit))"

definition updatePreview_v1 :: "block_builder \<Rightarrow> intersect list \<Rightarrow> block_builder" where
  "updatePreview_v1 s intersects =
     (case intersects of
        [] \<Rightarrow> s\<lparr>previewVisible := False\<rparr>
      | hit # _ \<Rightarrow> s\<lparr>previewPosition := roundVector (newPos_v1 hit), previewVisible := True\<rparr>)"

text \<open>
  \<open>intersects\<close> is the result of the ray cast the branch makes: against the plane and the
  blocks for the left button, against the blocks for the right one.
\<close>

definition onMouseDown_v1 :: "block_builder \<Rightarrow> nat \<Rightarrow> intersect list \<Rightarrow> nat \<Rightarrow> block_builder" where
  "onMouseDown_v1 s button intersects color =
     (if button = 0
      then (case intersects of
              [] \<Rightarrow> s
            | hit # _ \<Rightarrow>
                (let newPos = newPos_v1 hit; key = getKey newPos
                 in if key \<notin> occupiedPositions s then addBlock_v1 s newPos color else s))
      else if button = 2
      then (case intersects of [] \<Rightarrow> s | hit # _ \<Rightarrow> removeBlock_v1 s (object hit))
      else s)"

section \<open>Concrete states\<close>

text \<open>A \<^verbatim>\<open>BlockSystem\<close> after one block was placed at the cell (0,0,0), and that block.\<close>

definition oneBlock :: block_system where
  "oneBlock = snd (placeBlock new_BlockSystem \<lparr>gx = 0, gy = 0, gz = 0\<rparr>)"

definition block0 :: mesh where
  "block0 = \<lparr>meshId = 1, meshPosition = origin3, meshMaterial = Some GRASS\<rparr>"

text \<open>The same with a second block at the cell (-1,0,0), and that block.\<close>

definition twoBlocks :: block_system where
  "twoBlocks = snd (placeBlock oneBlock \<lparr>gx = - 1, gy = 0, gz = 0\<rparr>)"

definition block1 :: mesh where
  "block1 = \<lparr>meshId = 2, meshPosition = \<lparr>vx = - 1, vy = 0, vz = 0\<rparr>, meshMaterial = Some GRASS\<rparr>"

text \<open>The application after the model \<^verbatim>\<open>block-grass\<close> was loaded and selected by default.\<close>

definition grassLoaded :: block_builder where
  "grassLoaded = modelLoaded new_BlockBuilder ''block-grass'' (Gltf True) True"

text \<open>
  The application after a block was then added at the origin, that block, and one of its
  parts as a ray finds it.
\<close>

definition oneModel :: block_builder where
  "oneModel = perform grassLoaded (AddBlock origin3)"

definition firstClone :: object3d where
  "firstClone = Object3D 4 origin3 (Some ''0,0,0'') (Some blocksGroup)"

definition firstClonePart :: object3d where
  "firstClonePart = Object3D 9 origin3 None (Some firstClone)"


text \<open>The application with nothing loaded after \<^verbatim>\<open>selectModel('constructor')\<close>.\<close>

definition constructorSelected :: block_builder where
  "constructorSelected = selectModel new_BlockBuilder ''constructor''"

section \<open>Rounding to doubles\<close>

lemma rne_of_int: "rne (of_int n) = n"
  by (simp add: rne_def)


lemma ulp_pos: "0 < ulp x"
  by (simp add: ulp_def)

lemma floor_log_unique:
  assumes "2 powi e \<le> \<bar>x\<bar>" and "\<bar>x\<bar> < 2 powi (e + 1)"
  shows "\<lfloor>log 2 \<bar>x\<bar>\<rfloor> = e"
proof -
  have pos: "0 < \<bar>x\<bar>"
    using assms(1) by (smt (verit) zero_less_power_int)
  have "(2::real) powr (of_int e) = 2 powi e" "(2::real) powr (of_int e + 1) = 2 powi (e + 1)"
    using powr_real_of_int' [of 2 e] powr_real_of_int' [of 2 "e + 1"] by simp_all
  then show ?thesis
    using assms pos by (simp add: floor_log_eq_powr_iff)
qed

lemma floor_log_bounds:
  assumes "x \<noteq> 0"
  shows "2 powi \<lfloor>log 2 \<bar>x\<bar>\<rfloor> \<le> \<bar>x\<bar>" and "\<bar>x\<bar> < 2 powi (\<lfloor>log 2 \<bar>x\<bar>\<rfloor> + 1)"
proof -
  have pos: "0 < \<bar>x\<bar>" using assms by simp
  have "(2::real) powr (of_int \<lfloor>log 2 \<bar>x\<bar>\<rfloor>) \<le> \<bar>x\<bar> \<and> \<bar>x\<bar> < 2 powr (of_int \<lfloor>log 2 \<bar>x\<bar>\<rfloor> + 1)"
    using floor_log_eq_powr_iff [of "\<bar>x\<bar>" 2 "\<lfloor>log 2 \<bar>x\<bar>\<rfloor>"] pos by simp
  moreover have "(2::real) powr (of_int e) = 2 powi e" "(2::real) powr (of_int e + 1) = 2 powi (e + 1)" for e
    using powr_real_of_int' [of 2 e] powr_real_of_int' [of 2 "e + 1"] by simp_all
  ultimately show "2 powi \<lfloor>log 2 \<bar>x\<bar>\<rfloor> \<le> \<bar>x\<bar>" and "\<bar>x\<bar> < 2 powi (\<lfloor>log 2 \<bar>x\<bar>\<rfloor> + 1)"
    by simp_all
qed


lemma pow2_less_D: "(2::real) powi a < 2 powi b \<Longrightarrow> a < b"
  using power_int_increasing [of b a "2::real"] by (cases "a < b") auto

lemma exponent_eq:
  assumes "2 powi e \<le> \<bar>x\<bar>" and "\<bar>x\<bar> < 2 powi (e + 1)" and "- 1022 \<le> e"
  shows "exponent x = e"
  using floor_log_unique [OF assms(1,2)] assms(3) by (simp add: exponent_def)

lemma fl_at:
  assumes "2 powi e \<le> \<bar>x\<bar>" and "\<bar>x\<bar> < 2 powi (e + 1)" and "- 1022 \<le> e"
  shows "fl x = of_int (rne (x / 2 powi (e - 52))) * 2 powi (e - 52)"
proof -
  have "x \<noteq> 0"
    using assms(1) by (smt (verit) zero_less_power_int)
  then show ?thesis
    by (simp add: fl_def ulp_def exponent_eq [OF assms])
qed

text \<open>A number with at most 53 significant bits, not below the smallest subnormal, is a double.\<close>

lemma fl_exact:
  assumes x: "x = of_int m * 2 powi k" and m: "\<bar>m\<bar> < 2 ^ 53" and k: "- 1074 \<le> k"
  shows "fl x = x"
proof (cases "x = 0")
  case True
  then show ?thesis by (simp add: fl_def)
next
  case False
  let ?E = "exponent x"
  have le: "?E - 52 \<le> k"
  proof (cases "\<lfloor>log 2 \<bar>x\<bar>\<rfloor> \<le> - 1022")
    case True
    then have "?E = - 1022" by (simp add: exponent_def)
    then show ?thesis using k by simp
  next
    case False
    then have E: "?E = \<lfloor>log 2 \<bar>x\<bar>\<rfloor>" by (simp add: exponent_def)
    have "2 powi ?E \<le> \<bar>x\<bar>"
      using floor_log_bounds(1) [OF \<open>x \<noteq> 0\<close>] E by simp
    also have "\<bar>x\<bar> = of_int \<bar>m\<bar> * 2 powi k"
      by (simp add: x abs_mult)
    also have "\<dots> < 2 ^ 53 * 2 powi k"
    proof -
      have "(of_int \<bar>m\<bar> :: real) < 2 ^ 53"
        using m by (metis of_int_less_iff of_int_numeral of_int_power)
      then show ?thesis by (simp add: mult_strict_right_mono)
    qed
    also have "\<dots> = 2 powi (53 + k)"
      by (simp add: power_int_add)
    finally have "(2::real) powi ?E < 2 powi (53 + k)" .
    then have "?E < 53 + k"
      by (rule pow2_less_D)
    then show ?thesis by simp
  qed
  define j where "j = nat (k - (?E - 52))"
  have kj: "k = (?E - 52) + int j"
    using le by (simp add: j_def)
  have "x / ulp x = of_int m * (2 powi k / 2 powi (?E - 52))"
    by (simp add: x ulp_def)
  also have "(2::real) powi k / 2 powi (?E - 52) = 2 ^ j"
    by (subst kj) (simp add: power_int_add)
  also have "of_int m * (2::real) ^ j = of_int (m * 2 ^ j)"
    by simp
  finally have q: "x / ulp x = of_int (m * 2 ^ j)" .
  have "rne (x / ulp x) = m * 2 ^ j"
    by (simp only: q rne_of_int)
  then have "fl x = of_int (m * 2 ^ j) * ulp x"
    using False by (simp only: fl_def if_False)
  also have "\<dots> = (x / ulp x) * ulp x"
    by (simp only: q)
  also have "\<dots> = x"
    using ulp_pos [of x] by simp
  finally show ?thesis .
qed


lemma fl_int: "\<bar>n\<bar> < 2 ^ 53 \<Longrightarrow> fl (of_int n) = of_int n"
  using fl_exact [of "of_int n" n 0] by simp

lemma fl_half: "\<bar>n\<bar> < 2 ^ 53 \<Longrightarrow> fl (of_int n / 2) = of_int n / 2"
  using fl_exact [of "of_int n / 2" n "- 1"] by simp

lemma fl_quarter: "\<bar>n\<bar> < 2 ^ 53 \<Longrightarrow> fl (of_int n / 4) = of_int n / 4"
  using fl_exact [of "of_int n / 4" n "- 2"] by (simp add: power_int_minus)

lemma fl_values:
  "fl 0 = 0" "fl 1 = 1" "fl (- 1) = - 1" "fl 2 = 2" "fl 6 = 6"
  "fl (1 / 2) = 1 / 2" "fl (- (1 / 2)) = - (1 / 2)" "fl (3 / 2) = 3 / 2"
  "fl (1 / 4) = 1 / 4" "fl (- (1 / 4)) = - (1 / 4)"
  using fl_int [of 0] fl_int [of 1] fl_int [of "- 1"] fl_int [of 2] fl_int [of 6]
    fl_half [of 1] fl_half [of "- 1"] fl_half [of 3] fl_quarter [of 1] fl_quarter [of "- 1"]
  by simp_all


section \<open>The grid coordinate mapper\<close>

lemma of_char_digitChar: "d < 10 \<Longrightarrow> (of_char (digitChar d) :: nat) = 48 + d"
proof -
  assume "d < 10"
  then have "d \<in> {0, 1, 2, 3, 4, 5, 6, 7, 8, 9}"
    by auto
  then show ?thesis
    by (auto simp add: digitChar_def)
qed

lemma isDigit_digitChar: "d < 10 \<Longrightarrow> isDigit (digitChar d)"
  by (simp add: isDigit_def of_char_digitChar)

lemma digitsOf_ne: "digitsOf n \<noteq> []"
  by (induction n rule: digitsOf.induct) (subst digitsOf.simps, simp)

lemma digitsOf_all: "list_all isDigit (digitsOf n)"
proof (induction n rule: digitsOf.induct)
  case (1 n)
  show ?case
  proof (cases "n < 10")
    case True
    then show ?thesis by (subst digitsOf.simps) (simp add: isDigit_digitChar)
  next
    case False
    with 1 show ?thesis by (subst digitsOf.simps) (simp add: isDigit_digitChar)
  qed
qed

lemma digitsValue_snoc: "digitsValue (cs @ [c]) = 10 * digitsValue cs + ((of_char c :: nat) - 48)"
  by (simp add: digitsValue_def)

lemma digitsValue_digitsOf: "digitsValue (digitsOf n) = n"
proof (induction n rule: digitsOf.induct)
  case (1 n)
  show ?case
  proof (cases "n < 10")
    case True
    then show ?thesis by (subst digitsOf.simps) (simp add: digitsValue_def of_char_digitChar)
  next
    case False
    with 1 show ?thesis
      by (subst digitsOf.simps) (simp add: digitsValue_snoc of_char_digitChar)
  qed
qed

lemma unsignedNumber_digitsOf: "unsignedNumber (digitsOf n) = Some n"
  by (simp add: unsignedNumber_def digitsOf_ne digitsOf_all digitsValue_digitsOf)

lemma isDigit_not_sign: "isDigit c \<Longrightarrow> c \<noteq> CHR ''-'' \<and> c \<noteq> CHR ''+'' \<and> c \<noteq> CHR '',''"
  by (auto simp add: isDigit_def)

lemma Number_digitsOf: "Number (digitsOf n) = Some (int n)"
proof (cases "digitsOf n")
  case Nil
  then show ?thesis using digitsOf_ne [of n] by simp
next
  case (Cons c cs)
  have "isDigit c"
    using digitsOf_all [of n] Cons by simp
  then have "c \<noteq> CHR ''-''" "c \<noteq> CHR ''+''"
    using isDigit_not_sign by blast+
  then have "Number (c # cs) = map_option int (unsignedNumber (c # cs))"
    by simp
  then show ?thesis
    using unsignedNumber_digitsOf [of n] Cons by simp
qed

lemma Number_numberToString: "Number (numberToString i) = Some i"
proof (cases "i < 0")
  case True
  then show ?thesis
    by (simp add: numberToString_def unsignedNumber_digitsOf)
next
  case False
  then show ?thesis
    by (simp add: numberToString_def Number_digitsOf)
qed

lemma comma_notin_digitsOf: "CHR '','' \<notin> set (digitsOf n)"
proof
  assume "CHR '','' \<in> set (digitsOf n)"
  then have "isDigit CHR '',''"
    using digitsOf_all [of n] by (simp add: list_all_iff)
  then show False
    by (simp add: isDigit_def)
qed

lemma comma_notin_numberToString: "CHR '','' \<notin> set (numberToString i)"
  by (simp add: numberToString_def comma_notin_digitsOf)

lemma split_comma_ne: "split_comma cs \<noteq> []"
  by (induction cs) (auto split: list.splits)

lemma split_comma_plain: "CHR '','' \<notin> set a \<Longrightarrow> split_comma a = [a]"
  by (induction a) auto

lemma split_comma_append:
  "CHR '','' \<notin> set a \<Longrightarrow> split_comma (a @ CHR '','' # rest) = a # split_comma rest"
  by (induction a) auto

lemma split_comma_positionToKey:
  "split_comma (positionToKey g) =
     [numberToString (gx g), numberToString (gy g), numberToString (gz g)]"
  by (simp add: positionToKey_def split_comma_append split_comma_plain comma_notin_numberToString)

lemma keyToPosition_inverse: "keyToPosition (positionToKey h) = Some h"
proof -
  have "map Number (split_comma (positionToKey h)) = [Some (gx h), Some (gy h), Some (gz h)]"
    by (simp only: split_comma_positionToKey list.map Number_numberToString)
  then have k: "keyToPosition (positionToKey h) = Some \<lparr>gx = gx h, gy = gy h, gz = gz h\<rparr>"
    unfolding keyToPosition_def by (simp only: list.case option.case)
  have e: "\<lparr>gx = gx h, gy = gy h, gz = gz h\<rparr> = h"
    by (cases h) simp
  show ?thesis
    by (rule trans [OF k arg_cong [where f = Some, OF e]])
qed

lemma positionToKey_inj: "positionToKey a = positionToKey b \<longleftrightarrow> a = b"
proof
  assume same: "positionToKey a = positionToKey b"
  have "Some a = keyToPosition (positionToKey a)"
    by (rule keyToPosition_inverse [symmetric])
  also have "\<dots> = keyToPosition (positionToKey b)"
    by (rule arg_cong [where f = keyToPosition, OF same])
  also have "\<dots> = Some b"
    by (rule keyToPosition_inverse)
  finally show "a = b"
    by (rule option.inject [THEN iffD1])
next
  assume "a = b"
  then show "positionToKey a = positionToKey b"
    by (rule arg_cong)
qed

text \<open>
  Claim C7. The key of a grid position, parsed back, is that position:
  \<open>keyToPosition (positionToKey g)\<close> is \<open>g\<close> for every integer position, and two
  positions have the same key exactly when they are equal.
\<close>

theorem keyToPosition_positionToKey:
  "keyToPosition (positionToKey g) = Some g \<and>
   (positionToKey a = positionToKey b \<longleftrightarrow> a = b)"
  using keyToPosition_inverse [of g] positionToKey_inj [of a b] by (rule conjI)

lemma ops_exact:
  "fmul (of_int k) 1 = fl (of_int k)" "fdiv v 1 = fl v" "fdiv 1 2 = 1 / 2" "fadd v 0 = fl v"
  by (simp_all add: fmul_def fdiv_def fadd_def fl_values)

lemma centre_exact:
  assumes "\<bar>k\<bar> \<le> 2 ^ 31"
  shows "fadd (fmul (of_int k) 1) (fdiv 1 2) = of_int k + 1 / 2"
proof -
  have a: "fl (of_int k) = of_int k"
    using assms by (intro fl_int) simp
  have eq: "of_int (2 * k + 1) / 2 = (of_int k :: real) + 1 / 2"
    by simp
  have "\<bar>2 * k + 1\<bar> < 2 ^ 53"
    using assms by simp
  then have "fl (of_int (2 * k + 1) / 2) = of_int (2 * k + 1) / 2"
    by (rule fl_half)
  then have "fl (of_int k + 1 / 2) = of_int k + 1 / 2"
    unfolding eq .
  then show ?thesis
    by (simp add: ops_exact a fadd_def)
qed






section \<open>Placement and removal\<close>

lemma numberToString_0: "numberToString 0 = ''0''"
  by (simp add: numberToString_def digitsOf.simps digitChar_def)

lemma positionToKey_origin: "positionToKey \<lparr>gx = 0, gy = 0, gz = 0\<rparr> = ''0,0,0''"
  by (simp add: positionToKey_def numberToString_0)

lemma Math_round_of_int: "Math_round (of_int n) = n"
  by (simp add: Math_round_def floor_eq_iff)

lemma Math_round_0: "Math_round 0 = 0"
  using Math_round_of_int [of 0] by simp

lemma getKey_origin: "getKey origin3 = ''0,0,0''"
  by (simp add: getKey_def origin3_def Math_round_0 numberToString_0)

lemma getKey_ne: "getKey pos \<noteq> []"
  by (simp add: getKey_def)


lemma roundVector_origin: "roundVector origin3 = origin3"
  by (simp add: roundVector_def origin3_def Math_round_0)

lemma placeBlock_free:
  assumes "\<not> hasBlock s g"
  shows "fst (placeBlock s g)"
    and "dom (blocks (snd (placeBlock s g))) = insert (positionToKey g) (dom (blocks s))"
    and "hasBlock (snd (placeBlock s g)) g"
  using assms by (simp_all add: placeBlock_def Let_def hasBlock_def)

lemma placeBlock_occupied: "hasBlock s g \<Longrightarrow> placeBlock s g = (False, s)"
  by (simp add: placeBlock_def)

lemma modelLoadedFor_cong:
  assumes "selectedModel t = selectedModel s" and "blockModels t = blockModels s"
    and "blockModelsProto t = blockModelsProto s"
  shows "modelLoadedFor t = modelLoadedFor s"
proof -
  have g: "blockModels_get t = blockModels_get s"
    unfolding blockModels_get_def assms(2) assms(3) ..
  show ?thesis
    unfolding modelLoadedFor_def g assms(1) ..
qed

lemma addBlock_free:
  assumes "modelLoadedFor s" and "getKey pos \<notin> occupiedPositions s"
  shows "addBlock s pos =
           Inr (True, s\<lparr>children := children s @
                           [Object3D (nextOid s) (roundVector pos) (Some (getKey pos)) (Some blocksGroup)],
                         occupiedPositions := insert (getKey pos) (occupiedPositions s),
                         nextOid := Suc (nextOid s)\<rparr>)"
  using assms by (auto simp add: addBlock_def Let_def modelLoadedFor_def split: option.splits)

lemma addBlock_occupied:
  "modelLoadedFor s \<Longrightarrow> getKey pos \<in> occupiedPositions s \<Longrightarrow> addBlock s pos = Inr (False, s)"
  by (auto simp add: addBlock_def Let_def modelLoadedFor_def split: option.splits)

lemma addBlock_no_model:
  assumes "selectedModel s = None \<or> selectedModel s = Some [] \<or>
           (\<exists>m. selectedModel s = Some m \<and> blockModels_get s m = Undefined)"
  shows "addBlock s pos =
           Inr (False, s\<lparr>console := console s @ [''No model selected or model not loaded yet'']\<rparr>)"
  using assms by (auto simp add: addBlock_def)

lemma modelLoadedFor_grassLoaded: "modelLoadedFor grassLoaded"
  by (simp add: grassLoaded_def modelLoaded_def blockModels_set_def selectModel_def new_BlockBuilder_def
      truthy_def modelLoadedFor_def blockModels_get_def Let_def)

lemma grassLoaded_fields:
  "children grassLoaded = []" "occupiedPositions grassLoaded = {}" "nextOid grassLoaded = 4"
  "console grassLoaded = []" "dragThreshold grassLoaded = 5" "previewVisible grassLoaded = False"
  by (simp_all add: grassLoaded_def modelLoaded_def blockModels_set_def selectModel_def
      new_BlockBuilder_def truthy_def Let_def)

lemma addBlock_grassLoaded: "addBlock grassLoaded origin3 = Inr (True, oneModel)"
  using addBlock_free [of grassLoaded origin3] modelLoadedFor_grassLoaded
  by (simp add: oneModel_def grassLoaded_fields)

lemma oneModel_eq:
  "oneModel = grassLoaded\<lparr>children := [firstClone], occupiedPositions := {''0,0,0''}, nextOid := 5\<rparr>"
  using addBlock_free [of grassLoaded origin3] modelLoadedFor_grassLoaded
  by (simp add: oneModel_def grassLoaded_fields firstClone_def getKey_origin roundVector_origin)

lemma modelLoadedFor_oneModel: "modelLoadedFor oneModel"
  using modelLoadedFor_cong [of oneModel grassLoaded] modelLoadedFor_grassLoaded
  by (simp add: oneModel_eq)

text \<open>
  Claim C3. A placement into an empty cell succeeds, and the same placement repeated at
  once is rejected and changes nothing; the occupancy map has gained exactly the key of
  the cell. This holds for \<open>placeBlock\<close> of \<^verbatim>\<open>BlockSystem\<close> and, once a model is
  selected and loaded, for \<open>addBlock\<close> of the application, whose second call returns
  \<^verbatim>\<open>false\<close> without the warning of the missing model.
\<close>

theorem place_twice_rejected:
  "(\<not> hasBlock s g \<longrightarrow>
      fst (placeBlock s g) \<and>
      placeBlock (snd (placeBlock s g)) g = (False, snd (placeBlock s g)) \<and>
      dom (blocks (snd (placeBlock s g))) = insert (positionToKey g) (dom (blocks s)) \<and>
      positionToKey g \<notin> dom (blocks s)) \<and>
   (modelLoadedFor b \<and> getKey pos \<notin> occupiedPositions b \<longrightarrow>
      (\<exists>b1. addBlock b pos = Inr (True, b1) \<and>
            addBlock b1 pos = Inr (False, b1) \<and>
            occupiedPositions b1 = insert (getKey pos) (occupiedPositions b) \<and>
            length (children b1) = Suc (length (children b))))"
proof (intro conjI impI)
  assume free: "\<not> hasBlock s g"
  show "fst (placeBlock s g)"
    by (rule placeBlock_free(1) [OF free])
  show "placeBlock (snd (placeBlock s g)) g = (False, snd (placeBlock s g))"
    by (rule placeBlock_occupied [OF placeBlock_free(3) [OF free]])
  show "dom (blocks (snd (placeBlock s g))) = insert (positionToKey g) (dom (blocks s))"
    by (rule placeBlock_free(2) [OF free])
  show "positionToKey g \<notin> dom (blocks s)"
    using free by (auto simp add: hasBlock_def)
next
  assume pre: "modelLoadedFor b \<and> getKey pos \<notin> occupiedPositions b"
  then have l: "modelLoadedFor b" and f: "getKey pos \<notin> occupiedPositions b"
    by simp_all
  let ?b1 = "b\<lparr>children := children b @
                   [Object3D (nextOid b) (roundVector pos) (Some (getKey pos)) (Some blocksGroup)],
                 occupiedPositions := insert (getKey pos) (occupiedPositions b),
                 nextOid := Suc (nextOid b)\<rparr>"
  have first: "addBlock b pos = Inr (True, ?b1)"
    by (rule addBlock_free [OF l f])
  have "modelLoadedFor ?b1"
    using modelLoadedFor_cong [of ?b1 b] l by simp
  then have second: "addBlock ?b1 pos = Inr (False, ?b1)"
    by (rule addBlock_occupied) simp
  show "\<exists>b1. addBlock b pos = Inr (True, b1) \<and> addBlock b1 pos = Inr (False, b1) \<and>
      occupiedPositions b1 = insert (getKey pos) (occupiedPositions b) \<and>
      length (children b1) = Suc (length (children b))"
    using first second by (intro exI [of _ ?b1]) simp
qed

theorem place_twice_rejected_witness:
  "\<not> hasBlock new_BlockSystem \<lparr>gx = 0, gy = 0, gz = 0\<rparr> \<and>
   fst (placeBlock new_BlockSystem \<lparr>gx = 0, gy = 0, gz = 0\<rparr>) \<and>
   placeBlock oneBlock \<lparr>gx = 0, gy = 0, gz = 0\<rparr> = (False, oneBlock) \<and>
   dom (blocks oneBlock) = {''0,0,0''} \<and>
   modelLoadedFor grassLoaded \<and> getKey origin3 \<notin> occupiedPositions grassLoaded \<and>
   addBlock grassLoaded origin3 = Inr (True, oneModel) \<and>
   addBlock oneModel origin3 = Inr (False, oneModel) \<and>
   occupiedPositions oneModel = {''0,0,0''} \<and>
   length (children oneModel) = 1"
proof -
  have h1: "\<not> hasBlock new_BlockSystem \<lparr>gx = 0, gy = 0, gz = 0\<rparr>"
    by (simp add: hasBlock_def new_BlockSystem_def)
  have h2: "modelLoadedFor grassLoaded \<and> getKey origin3 \<notin> occupiedPositions grassLoaded"
    by (simp add: modelLoadedFor_grassLoaded grassLoaded_fields)
  show ?thesis
    using place_twice_rejected [of new_BlockSystem "\<lparr>gx = 0, gy = 0, gz = 0\<rparr>" grassLoaded origin3] h1 h2
    by (auto simp add: oneBlock_def positionToKey_origin getKey_origin grassLoaded_fields
        new_BlockSystem_def addBlock_grassLoaded)
qed

lemma removeBlock_absent: "\<not> hasBlock s g \<Longrightarrow> removeBlock s g = (False, s)"
  by (simp add: removeBlock_def hasBlock_def)

lemma removeBlock_clears: "\<not> hasBlock (snd (removeBlock s g)) g"
  by (simp add: removeBlock_def hasBlock_def Let_def split: option.splits)

lemma place_remove_blocks:
  "\<not> hasBlock s g \<Longrightarrow>
     fst (removeBlock (snd (placeBlock s g)) g) \<and>
     blocks (snd (removeBlock (snd (placeBlock s g)) g)) = blocks s"
  by (auto simp add: removeBlock_def placeBlock_def hasBlock_def Let_def)

lemma place_remove_scene:
  assumes "\<not> hasBlock s g" and "list_all (\<lambda>m. meshId m < nextMeshId s) (scene s)"
  shows "scene (snd (removeBlock (snd (placeBlock s g)) g)) = scene s"
proof -
  have "filter (\<lambda>c. meshId c \<noteq> nextMeshId s) (scene s) = scene s"
    using assms(2) by (auto simp add: filter_id_conv list_all_iff)
  then show ?thesis
    using assms(1) by (simp add: removeBlock_def placeBlock_def hasBlock_def Let_def scene_remove_def)
qed

lemma removeBlockObject_key:
  assumes "positionKey (topObject ob) = Some k" and "k \<noteq> []"
  shows "occupiedPositions (removeBlockObject b ob) = occupiedPositions b - {k}"
    and "children (removeBlockObject b ob) = group_remove (children b) (topObject ob)"
  using assms by (simp_all add: removeBlockObject_def Let_def)

lemma onMouseDown_no_hit:
  "children (onMouseDown b button x y ui []) = children b \<and>
   occupiedPositions (onMouseDown b button x y ui []) = occupiedPositions b"
  by (simp add: onMouseDown_def Let_def)

lemma add_remove_object:
  assumes l: "modelLoadedFor b" and f: "getKey pos \<notin> occupiedPositions b"
    and fresh: "list_all (\<lambda>c. oid c < nextOid b) (children b)"
    and added: "addBlock b pos = Inr (True, b1)"
    and owner: "topObject ob = last (children b1)"
  shows "occupiedPositions (removeBlockObject b1 ob) = occupiedPositions b"
    and "children (removeBlockObject b1 ob) = children b"
proof -
  let ?new = "Object3D (nextOid b) (roundVector pos) (Some (getKey pos)) (Some blocksGroup)"
  have b1: "b1 = b\<lparr>children := children b @ [?new],
                    occupiedPositions := insert (getKey pos) (occupiedPositions b),
                    nextOid := Suc (nextOid b)\<rparr>"
    using added addBlock_free [OF l f] by simp
  have t: "topObject ob = ?new"
    using owner by (simp add: b1)
  then have k: "positionKey (topObject ob) = Some (getKey pos)"
    by simp
  show "occupiedPositions (removeBlockObject b1 ob) = occupiedPositions b"
    using f by (simp add: removeBlockObject_key(1) [OF k getKey_ne] b1)
  have "filter (\<lambda>c. oid c \<noteq> nextOid b) (children b) = children b"
    using fresh by (auto simp add: filter_id_conv list_all_iff)
  then show "children (removeBlockObject b1 ob) = children b"
    by (simp add: removeBlockObject_key(2) [OF k getKey_ne] b1 t group_remove_def)
qed

text \<open>
  Claim C4. In \<^verbatim>\<open>BlockSystem\<close>, \<open>placeBlock\<close> at a cell followed by \<open>removeBlock\<close> at
  that cell leaves no record for the cell, and gives back the map (and the scene) from
  before when the cell was empty; \<open>removeBlock\<close> at an empty cell returns \<^verbatim>\<open>false\<close> and
  changes nothing. In the application, adding a block and removing it through a hit on it
  gives back the occupancy set and the blocks from before, and a right click that hits no
  block removes nothing.
\<close>

theorem place_then_remove:
  "\<not> hasBlock (snd (removeBlock (snd (placeBlock s g)) g)) g \<and>
   (\<not> hasBlock s g \<longrightarrow>
      fst (removeBlock (snd (placeBlock s g)) g) \<and>
      blocks (snd (removeBlock (snd (placeBlock s g)) g)) = blocks s \<and>
      removeBlock s g = (False, s)) \<and>
   (\<not> hasBlock s g \<and> list_all (\<lambda>m. meshId m < nextMeshId s) (scene s) \<longrightarrow>
      scene (snd (removeBlock (snd (placeBlock s g)) g)) = scene s) \<and>
   (modelLoadedFor b \<and> getKey pos \<notin> occupiedPositions b \<longrightarrow>
      (\<exists>b1. addBlock b pos = Inr (True, b1))) \<and>
   (modelLoadedFor b \<and> getKey pos \<notin> occupiedPositions b \<and>
    list_all (\<lambda>c. oid c < nextOid b) (children b) \<and>
    addBlock b pos = Inr (True, b1) \<and> topObject ob = last (children b1) \<longrightarrow>
      getKey pos \<notin> occupiedPositions (removeBlockObject b1 ob) \<and>
      occupiedPositions (removeBlockObject b1 ob) = occupiedPositions b \<and>
      children (removeBlockObject b1 ob) = children b) \<and>
   children (onMouseDown b 2 x y ui []) = children b \<and>
   occupiedPositions (onMouseDown b 2 x y ui []) = occupiedPositions b"
proof (intro conjI impI)
  show "\<not> hasBlock (snd (removeBlock (snd (placeBlock s g)) g)) g"
    by (rule removeBlock_clears)
next
  assume free: "\<not> hasBlock s g"
  show "fst (removeBlock (snd (placeBlock s g)) g)"
    using place_remove_blocks [OF free] by simp
  show "blocks (snd (removeBlock (snd (placeBlock s g)) g)) = blocks s"
    using place_remove_blocks [OF free] by simp
  show "removeBlock s g = (False, s)"
    by (rule removeBlock_absent [OF free])
next
  assume "\<not> hasBlock s g \<and> list_all (\<lambda>m. meshId m < nextMeshId s) (scene s)"
  then show "scene (snd (removeBlock (snd (placeBlock s g)) g)) = scene s"
    by (simp add: place_remove_scene)
next
  assume "modelLoadedFor b \<and> getKey pos \<notin> occupiedPositions b"
  then show "\<exists>b1. addBlock b pos = Inr (True, b1)"
    by (simp add: addBlock_free)
next
  assume pre: "modelLoadedFor b \<and> getKey pos \<notin> occupiedPositions b \<and>
    list_all (\<lambda>c. oid c < nextOid b) (children b) \<and>
    addBlock b pos = Inr (True, b1) \<and> topObject ob = last (children b1)"
  then have occ: "occupiedPositions (removeBlockObject b1 ob) = occupiedPositions b"
    by (intro add_remove_object(1) [of b pos b1 ob]) simp_all
  then show "getKey pos \<notin> occupiedPositions (removeBlockObject b1 ob)"
    using pre by simp
  show "occupiedPositions (removeBlockObject b1 ob) = occupiedPositions b"
    by (rule occ)
  show "children (removeBlockObject b1 ob) = children b"
    using pre by (intro add_remove_object(2) [of b pos b1 ob]) simp_all
next
  show "children (onMouseDown b 2 x y ui []) = children b"
    by (simp add: onMouseDown_no_hit)
  show "occupiedPositions (onMouseDown b 2 x y ui []) = occupiedPositions b"
    by (simp add: onMouseDown_no_hit)
qed

theorem place_then_remove_witness:
  "\<not> hasBlock new_BlockSystem \<lparr>gx = 0, gy = 0, gz = 0\<rparr> \<and>
   list_all (\<lambda>m. meshId m < nextMeshId new_BlockSystem) (scene new_BlockSystem) \<and>
   fst (removeBlock oneBlock \<lparr>gx = 0, gy = 0, gz = 0\<rparr>) \<and>
   blocks (snd (removeBlock oneBlock \<lparr>gx = 0, gy = 0, gz = 0\<rparr>)) = Map.empty \<and>
   scene (snd (removeBlock oneBlock \<lparr>gx = 0, gy = 0, gz = 0\<rparr>)) = [highlightMesh] \<and>
   removeBlock new_BlockSystem \<lparr>gx = 0, gy = 0, gz = 0\<rparr> = (False, new_BlockSystem) \<and>
   modelLoadedFor grassLoaded \<and> getKey origin3 \<notin> occupiedPositions grassLoaded \<and>
   addBlock grassLoaded origin3 = Inr (True, oneModel) \<and>
   topObject firstClonePart = last (children oneModel) \<and>
   occupiedPositions (removeBlockObject oneModel firstClonePart) = {} \<and>
   children (removeBlockObject oneModel firstClonePart) = []"
proof -
  have h1: "\<not> hasBlock new_BlockSystem \<lparr>gx = 0, gy = 0, gz = 0\<rparr>"
    by (simp add: hasBlock_def new_BlockSystem_def)
  have h2: "list_all (\<lambda>m. meshId m < nextMeshId new_BlockSystem) (scene new_BlockSystem)"
    by (simp add: new_BlockSystem_def highlightMesh_def)
  have h3: "modelLoadedFor grassLoaded \<and> getKey origin3 \<notin> occupiedPositions grassLoaded \<and>
    list_all (\<lambda>c. oid c < nextOid grassLoaded) (children grassLoaded)"
    by (simp add: modelLoadedFor_grassLoaded grassLoaded_fields)
  have h4: "topObject firstClonePart = last (children oneModel)"
    by (simp add: oneModel_eq firstClonePart_def firstClone_def blocksGroup_def)
  show ?thesis
    using place_then_remove [of new_BlockSystem "\<lparr>gx = 0, gy = 0, gz = 0\<rparr>" grassLoaded origin3
        oneModel firstClonePart] h1 h2 h3 h4 addBlock_grassLoaded
    by (simp add: oneBlock_def grassLoaded_fields new_BlockSystem_def)
qed

text \<open>
  Where the guard of \<open>addBlock\<close> does reject: no model is selected, or the lookup of the
  selected id gives \<^verbatim>\<open>undefined\<close>. The occupancy set and the blocks stay as they were,
  also through the mouse-up that would have placed.
\<close>

lemma addBlock_rejects_unloaded:
  assumes "selectedModel b = None \<or> selectedModel b = Some [] \<or>
           (\<exists>m. selectedModel b = Some m \<and> blockModels_get b m = Undefined)"
  shows "\<exists>b1. addBlock b pos = Inr (False, b1) \<and>
           console b1 = console b @ [''No model selected or model not loaded yet''] \<and>
           occupiedPositions b1 = occupiedPositions b \<and> children b1 = children b"
    and "\<exists>b2. onMouseUp b button x y = Inr b2 \<and>
           occupiedPositions b2 = occupiedPositions b \<and> children b2 = children b"
  using addBlock_no_model [OF assms] by (simp_all add: onMouseUp_def)

text \<open>
  Claim C8. With nothing loaded and \<^verbatim>\<open>selectModel('constructor')\<close> called, the lookup
  \<^verbatim>\<open>this.blockModels['constructor']\<close> finds the inherited \<^verbatim>\<open>Object.prototype.constructor\<close>,
  so the guard of \<open>addBlock\<close> lets the call pass and the clone of the scene throws a
  \<^verbatim>\<open>TypeError\<close>: \<^verbatim>\<open>false\<close> is not returned and no warning is written. For an id that is
  not inherited, as \<^verbatim>\<open>block-grass\<close>, the same call returns \<^verbatim>\<open>false\<close> with the warning.
\<close>

theorem addBlock_inherited_key_throws:
  "selectedModel constructorSelected = Some ''constructor'' \<and>
   blockModels constructorSelected ''constructor'' = None \<and>
   blockModels_get constructorSelected ''constructor'' = OtherValue \<and>
   addBlock constructorSelected origin3 = Inl TypeError \<and>
   addBlock (selectModel new_BlockBuilder ''block-grass'') origin3 =
     Inr (False, (selectModel new_BlockBuilder ''block-grass'')
                   \<lparr>console := [''No model selected or model not loaded yet'']\<rparr>)"
  by (simp add: constructorSelected_def selectModel_def new_BlockBuilder_def addBlock_def
      blockModels_get_def Object_prototype_keys_def Let_def)

section \<open>Resolving the target cell\<close>

lemma targetObject_plane: "targetObject plane = plane"
  by (simp add: plane_def sceneObj_def blocksGroup_def)

lemma updatePreview_ground:
  "updatePreview b (\<lparr>object = plane, hitPoint = p, faceNormal = f, worldNormal = n\<rparr> # hits) =
     b\<lparr>previewPosition := \<lparr>vx = of_int (Math_round (vx p)), vy = 0, vz = of_int (Math_round (vz p))\<rparr>,
       previewVisible := True\<rparr>"
  by (simp add: updatePreview_def targetObject_plane Let_def roundVector_def Math_round_0)

lemma newPos_v1_ground:
  "newPos_v1 \<lparr>object = plane, hitPoint = p, faceNormal = f, worldNormal = n\<rparr> =
     \<lparr>vx = vx p, vy = 0, vz = vz p\<rparr>"
  by (simp add: newPos_v1_def)

text \<open>
  Claim C9. A hit on the ground plane resolves to a cell of the floor layer: the preview
  is put at height 0 whatever the height of the hit point, with the horizontal
  coordinates of the hit point rounded to the grid; the first version of the application
  adds its block at that same position on the click.
\<close>

theorem ground_hit_pinned:
  "previewPosition (updatePreview b (\<lparr>object = plane, hitPoint = p, faceNormal = f, worldNormal = n\<rparr> # hits)) =
     \<lparr>vx = of_int (Math_round (vx p)), vy = 0, vz = of_int (Math_round (vz p))\<rparr> \<and>
   previewVisible (updatePreview b (\<lparr>object = plane, hitPoint = p, faceNormal = f, worldNormal = n\<rparr> # hits)) \<and>
   cellOf (previewPosition (updatePreview b (\<lparr>object = plane, hitPoint = p, faceNormal = f, worldNormal = n\<rparr> # hits))) =
     \<lparr>gx = Math_round (vx p), gy = 0, gz = Math_round (vz p)\<rparr> \<and>
   (getKey \<lparr>vx = vx p, vy = 0, vz = vz p\<rparr> \<notin> occupiedPositions b \<longrightarrow>
      children (onMouseDown_v1 b 0 (\<lparr>object = plane, hitPoint = p, faceNormal = f, worldNormal = n\<rparr> # hits) color) =
        children b @ [Object3D (nextOid b)
                        \<lparr>vx = of_int (Math_round (vx p)), vy = 0, vz = of_int (Math_round (vz p))\<rparr>
                        None (Some blocksGroup)])"
  by (simp add: updatePreview_ground cellOf_def Math_round_of_int Math_round_0 onMouseDown_v1_def
      newPos_v1_ground addBlock_v1_def roundVector_def Let_def)

theorem ground_hit_pinned_witness:
  "previewPosition (updatePreview new_BlockBuilder
      [\<lparr>object = plane, hitPoint = \<lparr>vx = 12 / 5, vy = - 3, vz = - 1 / 2\<rparr>,
        faceNormal = \<lparr>vx = 0, vy = 0, vz = 1\<rparr>, worldNormal = \<lparr>vx = 0, vy = 1, vz = 0\<rparr>\<rparr>]) =
     \<lparr>vx = 2, vy = 0, vz = 0\<rparr> \<and>
   getKey \<lparr>vx = 12 / 5, vy = 0, vz = - 1 / 2\<rparr> \<notin> occupiedPositions new_BlockBuilder \<and>
   children (onMouseDown_v1 new_BlockBuilder 0
      [\<lparr>object = plane, hitPoint = \<lparr>vx = 12 / 5, vy = - 3, vz = - 1 / 2\<rparr>,
        faceNormal = \<lparr>vx = 0, vy = 0, vz = 1\<rparr>, worldNormal = \<lparr>vx = 0, vy = 1, vz = 0\<rparr>\<rparr>] 0) =
     [Object3D 4 \<lparr>vx = 2, vy = 0, vz = 0\<rparr> None (Some blocksGroup)]"
proof -
  have h: "getKey \<lparr>vx = 12 / 5, vy = 0, vz = - 1 / 2\<rparr> \<notin> occupiedPositions new_BlockBuilder"
    by (simp add: new_BlockBuilder_def)
  have r: "Math_round (12 / 5) = 2" "Math_round (- (1 / 2)) = 0"
    by (simp_all add: Math_round_def)
  show ?thesis
    using ground_hit_pinned [of new_BlockBuilder "\<lparr>vx = 12 / 5, vy = - 3, vz = - 1 / 2\<rparr>"
        "\<lparr>vx = 0, vy = 0, vz = 1\<rparr>" "\<lparr>vx = 0, vy = 1, vz = 0\<rparr>" "[]" 0] h
    by (simp add: r new_BlockBuilder_def)
qed

section \<open>Clicks and drags\<close>













section \<open>Hits on a placed block\<close>

lemma ops_values:
  "fdiv 1 2 = 1 / 2" "fmul 0 1 = 0" "fmul 1 1 = 1" "fmul (- 1) 1 = - 1"
  "fadd 0 (1 / 2) = 1 / 2" "fadd 1 (1 / 2) = 3 / 2" "fadd (- 1) (1 / 2) = - (1 / 2)"
  "fsub (1 / 2) (1 / 2) = 0" "fsub (3 / 2) (1 / 2) = 1" "fsub (- (1 / 2)) (1 / 2) = - 1"
  "fmul 0 (1 / 2) = 0" "fmul 1 (1 / 2) = 1 / 2"
  "fadd (- (1 / 4)) 0 = - (1 / 4)" "fadd (1 / 4) 0 = 1 / 4" "fadd (1 / 2) (1 / 2) = 1"
  "fdiv (- (1 / 4)) 1 = - (1 / 4)" "fdiv (1 / 4) 1 = 1 / 4" "fdiv (1 / 2) 1 = 1 / 2"
  "fdiv 1 1 = 1"
  by (simp_all add: fadd_def fsub_def fmul_def fdiv_def fl_values)

lemma cornerOf_origin: "cornerOf new_BlockSystem \<lparr>gx = 0, gy = 0, gz = 0\<rparr> = origin3"
  by (simp add: cornerOf_def gridToWorld_def new_BlockSystem_def Let_def ops_values origin3_def)

lemma cornerOf_west:
  "blockSize s = 1 \<Longrightarrow> cornerOf s \<lparr>gx = - 1, gy = 0, gz = 0\<rparr> = \<lparr>vx = - 1, vy = 0, vz = 0\<rparr>"
  by (simp add: cornerOf_def gridToWorld_def Let_def ops_values)

lemma oneBlock_eq:
  "oneBlock =
     new_BlockSystem\<lparr>scene := [highlightMesh, block0], blocks := [''0,0,0'' \<mapsto> block0], nextMeshId := 2\<rparr>"
  by (simp add: oneBlock_def block0_def placeBlock_def hasBlock_def cornerOf_origin
      positionToKey_origin Let_def) (simp add: new_BlockSystem_def BLOCK_TYPE_keys_def)

lemma positionToKey_west: "positionToKey \<lparr>gx = - 1, gy = 0, gz = 0\<rparr> = ''-1,0,0''"
  by (simp add: positionToKey_def numberToString_def digitsOf.simps digitChar_def)

lemma twoBlocks_eq:
  "twoBlocks =
     new_BlockSystem\<lparr>scene := [highlightMesh, block0, block1],
                      blocks := [''0,0,0'' \<mapsto> block0, ''-1,0,0'' \<mapsto> block1], nextMeshId := 3\<rparr>"
  by (simp add: twoBlocks_def oneBlock_eq block1_def placeBlock_def hasBlock_def new_BlockSystem_def
      positionToKey_west Let_def cornerOf_west BLOCK_TYPE_keys_def)

text \<open>
  In the application the preview next to a block does not look at the hit point: it is
  the position of the block that owns the hit object, moved by the normal. For a block on
  the grid and an axis-aligned unit normal this is the neighbouring cell.
\<close>

lemma fl_of_int_Ints: "fl (of_int n) \<in> \<int>"
proof (cases "\<bar>n\<bar> < 2 ^ 53")
  case True
  then show ?thesis
    by (simp add: fl_int)
next
  case False
  then have "(2::int) ^ 53 \<le> \<bar>n\<bar>"
    by simp
  then have "real_of_int (2 ^ 53) \<le> real_of_int \<bar>n\<bar>"
    by (simp only: of_int_le_iff)
  then have big: "(2::real) ^ 53 \<le> \<bar>of_int n\<bar>"
    by simp
  then have nz: "real_of_int n \<noteq> 0"
    by auto
  have p: "(2::real) powi 53 \<le> \<bar>real_of_int n\<bar>"
    using big by simp
  have "(2::real) powi 53 < 2 powi (\<lfloor>log 2 \<bar>real_of_int n\<bar>\<rfloor> + 1)"
    using p floor_log_bounds(2) [OF nz] by (rule le_less_trans)
  then have "53 < \<lfloor>log 2 \<bar>real_of_int n\<bar>\<rfloor> + 1"
    by (rule pow2_less_D)
  then have "0 \<le> exponent (of_int n) - 52"
    unfolding exponent_def by simp
  then obtain k :: nat where "exponent (of_int n) - 52 = int k"
    using zero_le_imp_eq_int by blast
  then have "ulp (of_int n) = 2 ^ k"
    by (simp add: ulp_def)
  then show ?thesis
    by (simp add: fl_def)
qed

lemma axisNormal_cases:
  assumes "axisNormal n"
  shows "\<exists>i j k. n = \<lparr>vx = of_int i, vy = of_int j, vz = of_int k\<rparr>"
proof -
  obtain i j k where "vx n = of_int i" "vy n = of_int j" "vz n = of_int k"
    using assms by (auto simp add: axisNormal_def Ints_def)
  then have "n = \<lparr>vx = of_int i, vy = of_int j, vz = of_int k\<rparr>"
    by (cases n) simp
  then show ?thesis by blast
qed

lemma Math_round_fadd_ints: "of_int (Math_round (fadd (of_int i) (of_int j))) = fadd (of_int i) (of_int j)"
proof -
  have "fadd (of_int i) (of_int j) = fl (of_int (i + j))"
    by (simp add: fadd_def)
  then obtain m where "fadd (of_int i) (of_int j) = of_int m"
    using fl_of_int_Ints [of "i + j"] by (auto simp add: Ints_def)
  then show ?thesis
    by (simp only: Math_round_of_int)
qed

lemma updatePreview_adjacent:
  assumes "oid (targetObject (object hit)) \<noteq> oid plane"
    and "position (targetObject (object hit)) = \<lparr>vx = of_int i, vy = of_int j, vz = of_int k\<rparr>"
    and "axisNormal (worldNormal hit)"
  shows "previewPosition (updatePreview b (hit # hits)) =
           vadd (position (targetObject (object hit))) (worldNormal hit)"
proof -
  obtain ni nj nk where n: "worldNormal hit = \<lparr>vx = of_int ni, vy = of_int nj, vz = of_int nk\<rparr>"
    using axisNormal_cases [OF assms(3)] by blast
  show ?thesis
    using assms(1,2) n
    by (simp add: updatePreview_def Let_def vadd_def roundVector_def Math_round_fadd_ints)
qed

text \<open>
  Claim C1, on \<^verbatim>\<open>BlockSystem\<close>. \<open>placeBlock\<close> puts the centre of the cube for the cell
  (0,0,0) at the corner (0,0,0) of that cell, so the cube reaches from -1/2 to 1/2 on
  every axis. The point (-1/4, 1/2, 1/4) lies on its top face; the hit there, with the
  normal (0,1,0), is resolved by \<open>updateHighlightPosition\<close> to the cell (-1,1,0), while
  the hit at (1/4, 1/2, 1/4) on the same face is resolved to (0,1,0).
\<close>

theorem updateHighlightPosition_off_cell:
  "blocks oneBlock (positionToKey \<lparr>gx = 0, gy = 0, gz = 0\<rparr>) = Some block0 \<and>
   onBoxFace oneBlock block0 \<lparr>vx = 0, vy = 1, vz = 0\<rparr> \<lparr>vx = - 1 / 4, vy = 1 / 2, vz = 1 / 4\<rparr> \<and>
   fst (updateHighlightPosition oneBlock (Some \<lparr>point = \<lparr>vx = - 1 / 4, vy = 1 / 2, vz = 1 / 4\<rparr>\<rparr>)
          \<lparr>normal = \<lparr>vx = 0, vy = 1, vz = 0\<rparr>\<rparr>) = Some \<lparr>gx = - 1, gy = 1, gz = 0\<rparr> \<and>
   onBoxFace oneBlock block0 \<lparr>vx = 0, vy = 1, vz = 0\<rparr> \<lparr>vx = 1 / 4, vy = 1 / 2, vz = 1 / 4\<rparr> \<and>
   fst (updateHighlightPosition oneBlock (Some \<lparr>point = \<lparr>vx = 1 / 4, vy = 1 / 2, vz = 1 / 4\<rparr>\<rparr>)
          \<lparr>normal = \<lparr>vx = 0, vy = 1, vz = 0\<rparr>\<rparr>) = Some \<lparr>gx = 0, gy = 1, gz = 0\<rparr>"
proof -
  have b: "blockSize oneBlock = 1" "blocks oneBlock = [''0,0,0'' \<mapsto> block0]"
    by (simp_all add: oneBlock_eq new_BlockSystem_def)
  have k: "positionToKey \<lparr>gx = - 1, gy = 1, gz = 0\<rparr> \<noteq> ''0,0,0''"
    "positionToKey \<lparr>gx = 0, gy = 1, gz = 0\<rparr> \<noteq> ''0,0,0''"
    by (simp_all add: positionToKey_def numberToString_def digitsOf.simps digitChar_def)
  have w: "worldToGrid oneBlock \<lparr>vx = - (1 / 4), vy = 1, vz = 1 / 4\<rparr> = \<lparr>gx = - 1, gy = 1, gz = 0\<rparr>"
    "worldToGrid oneBlock \<lparr>vx = 1 / 4, vy = 1, vz = 1 / 4\<rparr> = \<lparr>gx = 0, gy = 1, gz = 0\<rparr>"
    by (simp_all add: worldToGrid_def b ops_values Math_floor_def)
  show ?thesis
    by (simp add: b positionToKey_origin onBoxFace_def block0_def origin3_def
        updateHighlightPosition_def vadd_def multiplyScalar_def ops_values w k hasBlock_def Let_def)
qed

text \<open>
  In the application a right click removes the block that owns the hit object: the key
  that block carries leaves the occupancy set and the block leaves the scene.
\<close>

lemma onMouseDown_removes_owner:
  assumes "topObject (object hit) = c" and "positionKey c = Some k" and "k \<noteq> []"
  shows "occupiedPositions (onMouseDown b 2 x y ui (hit # hits)) = occupiedPositions b - {k}"
    and "children (onMouseDown b 2 x y ui (hit # hits)) = group_remove (children b) c"
  using assms by (simp_all add: onMouseDown_def removeBlockObject_def Let_def)

text \<open>
  Claim C2, on \<^verbatim>\<open>BlockSystem\<close>. With blocks at the cells (0,0,0) and (-1,0,0), a right
  click on the top face of the cube of (0,0,0), at the point (-1/4, 1/2, 1/4), makes
  \<open>handleClick\<close> remove at the cell of the hit point, (-1,0,0): the neighbour is removed
  and the block that was hit stays. With the block at (0,0,0) alone the same click returns
  \<^verbatim>\<open>false\<close> and removes nothing.
\<close>

theorem handleClick_remove_misses:
  "blocks twoBlocks (positionToKey \<lparr>gx = 0, gy = 0, gz = 0\<rparr>) = Some block0 \<and>
   onBoxFace twoBlocks block0 \<lparr>vx = 0, vy = 1, vz = 0\<rparr> \<lparr>vx = - 1 / 4, vy = 1 / 2, vz = 1 / 4\<rparr> \<and>
   worldToGrid twoBlocks \<lparr>vx = - 1 / 4, vy = 1 / 2, vz = 1 / 4\<rparr> = \<lparr>gx = - 1, gy = 0, gz = 0\<rparr> \<and>
   fst (handleClick twoBlocks (Some \<lparr>point = \<lparr>vx = - 1 / 4, vy = 1 / 2, vz = 1 / 4\<rparr>\<rparr>)
          \<lparr>normal = \<lparr>vx = 0, vy = 1, vz = 0\<rparr>\<rparr> True) \<and>
   hasBlock (snd (handleClick twoBlocks (Some \<lparr>point = \<lparr>vx = - 1 / 4, vy = 1 / 2, vz = 1 / 4\<rparr>\<rparr>)
          \<lparr>normal = \<lparr>vx = 0, vy = 1, vz = 0\<rparr>\<rparr> True)) \<lparr>gx = 0, gy = 0, gz = 0\<rparr> \<and>
   \<not> hasBlock (snd (handleClick twoBlocks (Some \<lparr>point = \<lparr>vx = - 1 / 4, vy = 1 / 2, vz = 1 / 4\<rparr>\<rparr>)
          \<lparr>normal = \<lparr>vx = 0, vy = 1, vz = 0\<rparr>\<rparr> True)) \<lparr>gx = - 1, gy = 0, gz = 0\<rparr> \<and>
   hasBlock twoBlocks \<lparr>gx = - 1, gy = 0, gz = 0\<rparr> \<and>
   handleClick oneBlock (Some \<lparr>point = \<lparr>vx = - 1 / 4, vy = 1 / 2, vz = 1 / 4\<rparr>\<rparr>)
          \<lparr>normal = \<lparr>vx = 0, vy = 1, vz = 0\<rparr>\<rparr> True = (False, oneBlock) \<and>
   hasBlock oneBlock \<lparr>gx = 0, gy = 0, gz = 0\<rparr>"
proof -
  have w: "blockSize s = 1 \<Longrightarrow>
      worldToGrid s \<lparr>vx = - (1 / 4), vy = 1 / 2, vz = 1 / 4\<rparr> = \<lparr>gx = - 1, gy = 0, gz = 0\<rparr>" for s
    by (simp add: worldToGrid_def ops_values Math_floor_def)
  have b: "blockSize twoBlocks = 1" "blockSize oneBlock = 1"
    by (simp_all add: twoBlocks_eq oneBlock_eq new_BlockSystem_def)
  show ?thesis
    by (simp add: w [OF b(1)] w [OF b(2)] positionToKey_origin positionToKey_west handleClick_def
        removeBlock_def hasBlock_def Let_def)
      (simp add: twoBlocks_eq oneBlock_eq new_BlockSystem_def onBoxFace_def block0_def block1_def
        origin3_def)
qed

section \<open>The occupancy set and the scene\<close>





















lemma wellPlaced_recorded:
  assumes "wellPlaced s" and "blocks s k = Some m"
  shows "m \<in> set (blockMeshes s)" and "\<exists>g. k = positionToKey g \<and> meshPosition m = cornerOf s g"
proof -
  have "\<forall>k m. blocks s k = Some m \<longrightarrow>
         m \<in> set (blockMeshes s) \<and> (\<exists>g. k = positionToKey g \<and> meshPosition m = cornerOf s g)"
    using assms(1) by (simp add: wellPlaced_def)
  then show "m \<in> set (blockMeshes s)" and "\<exists>g. k = positionToKey g \<and> meshPosition m = cornerOf s g"
    using assms(2) by blast+
qed

lemma wellPlaced_key_unique:
  assumes "wellPlaced s" and "blocks s k = Some m" and "blocks s k' = Some m"
  shows "k = k'"
proof -
  have "\<forall>k k' m. blocks s k = Some m \<and> blocks s k' = Some m \<longrightarrow> k = k'"
    using assms(1) by (simp add: wellPlaced_def)
  then show ?thesis
    using assms(2,3) by blast
qed

lemma wellPlaced_shown:
  assumes "wellPlaced s" and "m \<in> set (blockMeshes s)"
  shows "\<exists>k. blocks s k = Some m"
proof -
  have "\<forall>m \<in> set (blockMeshes s). \<exists>k. blocks s k = Some m"
    using assms(1) by (simp add: wellPlaced_def)
  then show ?thesis
    using assms(2) by blast
qed





lemma wellPlaced_cells:
  assumes wp: "wellPlaced s"
  shows "hasBlock s g \<longleftrightarrow>
           (\<exists>m \<in> set (blockMeshes s).
              blocks s (positionToKey g) = Some m \<and> meshPosition m = cornerOf s g)"
    and "card (dom (blocks s)) = length (blockMeshes s)"
    and "distinct (blockMeshes s)"
proof -
  show "hasBlock s g \<longleftrightarrow>
      (\<exists>m \<in> set (blockMeshes s). blocks s (positionToKey g) = Some m \<and> meshPosition m = cornerOf s g)"
  proof
    assume "hasBlock s g"
    then obtain m where m: "blocks s (positionToKey g) = Some m"
      by (auto simp add: hasBlock_def)
    obtain h where "positionToKey g = positionToKey h" and p: "meshPosition m = cornerOf s h"
      using wellPlaced_recorded(2) [OF wp m] by blast
    then have "g = h"
      by (simp add: positionToKey_inj)
    then show "\<exists>m \<in> set (blockMeshes s).
        blocks s (positionToKey g) = Some m \<and> meshPosition m = cornerOf s g"
      using p m wellPlaced_recorded(1) [OF wp m] by auto
  next
    assume "\<exists>m \<in> set (blockMeshes s).
        blocks s (positionToKey g) = Some m \<and> meshPosition m = cornerOf s g"
    then show "hasBlock s g"
      by (auto simp add: hasBlock_def)
  qed
  have ran: "ran (blocks s) = set (blockMeshes s)"
    using wellPlaced_recorded(1) [OF wp] wellPlaced_shown [OF wp] unfolding ran_def by blast
  have inj: "inj_on (blocks s) (dom (blocks s))"
    using wellPlaced_key_unique [OF wp] by (auto simp add: inj_on_def dom_def)
  have "distinct (map meshId (blockMeshes s))"
    using wp by (simp add: wellPlaced_def blockMeshes_def distinct_map_filter)
  then show dm: "distinct (blockMeshes s)"
    by (simp add: distinct_map)
  have "blocks s ` dom (blocks s) = Some ` ran (blocks s)"
    by (force simp add: ran_def dom_def image_iff)
  then have "card (dom (blocks s)) = card (Some ` ran (blocks s))"
    using card_image [OF inj] by simp
  also have "\<dots> = card (ran (blocks s))"
    by (simp add: card_image)
  also have "\<dots> = length (blockMeshes s)"
    using distinct_card [OF dm] by (simp add: ran)
  finally show "card (dom (blocks s)) = length (blockMeshes s)" .
qed

lemma wellPlaced_mesh_key:
  assumes "wellPlaced s" and "m \<in> set (blockMeshes s)"
  shows "\<exists>g. blocks s (positionToKey g) = Some m \<and> meshPosition m = cornerOf s g"
proof -
  obtain k where k: "blocks s k = Some m"
    using wellPlaced_shown [OF assms] by blast
  obtain g where "k = positionToKey g" and "meshPosition m = cornerOf s g"
    using wellPlaced_recorded(2) [OF assms(1) k] by blast
  then show ?thesis
    using k by blast
qed

text \<open>
  The position of a mesh does not always tell its cell. Beyond \<open>2\<^sup>5\<^sup>2\<close> the doubles are
  one apart and the half block of \<open>gridToWorld\<close> is rounded away: the cells
  \<open>2\<^sup>5\<^sup>2 + 1\<close> and \<open>2\<^sup>5\<^sup>2 + 2\<close> get the same mesh position. The map and the scene are
  therefore related through the record of a mesh, not through its coordinates; for cells
  within \<open>2\<^sup>3\<^sup>1\<close> the coordinates do tell the cell.
\<close>

lemma fl_tie_up: "fl (4503599627370496 + 3 / 2) = 4503599627370498"
proof -
  have "fl (4503599627370496 + 3 / 2) =
      of_int (rne ((4503599627370496 + 3 / 2) / 2 powi (52 - 52))) * 2 powi (52 - 52)"
    by (rule fl_at) simp_all
  also have "\<dots> = 4503599627370498"
    by (simp add: rne_def Let_def)
  finally show ?thesis .
qed

lemma fl_tie_down: "fl (4503599627370496 + 5 / 2) = 4503599627370498"
proof -
  have "fl (4503599627370496 + 5 / 2) =
      of_int (rne ((4503599627370496 + 5 / 2) / 2 powi (52 - 52))) * 2 powi (52 - 52)"
    by (rule fl_at) simp_all
  also have "\<dots> = 4503599627370498"
    by (simp add: rne_def Let_def)
  finally show ?thesis .
qed

lemma cornerOf_collision:
  "cornerOf new_BlockSystem \<lparr>gx = 4503599627370497, gy = 0, gz = 0\<rparr> =
     \<lparr>vx = 4503599627370498, vy = 0, vz = 0\<rparr>"
  "cornerOf new_BlockSystem \<lparr>gx = 4503599627370498, gy = 0, gz = 0\<rparr> =
     \<lparr>vx = 4503599627370498, vy = 0, vz = 0\<rparr>"
proof -
  have b: "blockSize new_BlockSystem = 1"
    by (simp add: new_BlockSystem_def)
  have i: "fl 4503599627370497 = 4503599627370497" "fl 4503599627370498 = 4503599627370498"
    using fl_int [of 4503599627370497] fl_int [of 4503599627370498] by simp_all
  have u: "fl (9007199254740997 / 2) = 4503599627370498"
    "fl (9007199254740995 / 2) = 4503599627370498"
    using fl_tie_up fl_tie_down by simp_all
  show "cornerOf new_BlockSystem \<lparr>gx = 4503599627370497, gy = 0, gz = 0\<rparr> =
     \<lparr>vx = 4503599627370498, vy = 0, vz = 0\<rparr>"
    by (simp add: cornerOf_def gridToWorld_def Let_def b fmul_def fadd_def fsub_def fdiv_def fl_values i u)
  show "cornerOf new_BlockSystem \<lparr>gx = 4503599627370498, gy = 0, gz = 0\<rparr> =
     \<lparr>vx = 4503599627370498, vy = 0, vz = 0\<rparr>"
    by (simp add: cornerOf_def gridToWorld_def Let_def b fmul_def fadd_def fsub_def fdiv_def fl_values i u)
qed

lemma cornerOf_exact:
  assumes "blockSize s = 1"
    and "\<bar>gx g\<bar> \<le> 2 ^ 31" and "\<bar>gy g\<bar> \<le> 2 ^ 31" and "\<bar>gz g\<bar> \<le> 2 ^ 31"
  shows "cornerOf s g = \<lparr>vx = of_int (gx g), vy = of_int (gy g), vz = of_int (gz g)\<rparr>"
proof -
  have c: "fsub (fadd (fmul (of_int k) 1) (fdiv 1 2)) (fdiv 1 2) = of_int k" if "\<bar>k\<bar> \<le> 2 ^ 31" for k
  proof -
    have "fl (of_int k) = of_int k"
      using that by (intro fl_int) simp
    then show ?thesis
      by (simp only: centre_exact [OF that]) (simp add: fsub_def ops_values)
  qed
  show ?thesis
    by (simp add: cornerOf_def gridToWorld_def Let_def assms(1) c [OF assms(2)] c [OF assms(3)]
        c [OF assms(4)])
qed

lemma occupancy_by_position:
  assumes wp: "wellPlaced s" and size: "blockSize s = 1"
    and range: "\<And>h. hasBlock s h \<Longrightarrow> \<bar>gx h\<bar> \<le> 2 ^ 31 \<and> \<bar>gy h\<bar> \<le> 2 ^ 31 \<and> \<bar>gz h\<bar> \<le> 2 ^ 31"
    and g: "\<bar>gx g\<bar> \<le> 2 ^ 31" "\<bar>gy g\<bar> \<le> 2 ^ 31" "\<bar>gz g\<bar> \<le> 2 ^ 31"
  shows "hasBlock s g \<longleftrightarrow> (\<exists>m \<in> set (blockMeshes s). meshPosition m = cornerOf s g)"
proof
  assume "hasBlock s g"
  then show "\<exists>m \<in> set (blockMeshes s). meshPosition m = cornerOf s g"
    using wellPlaced_cells(1) [OF wp] by blast
next
  assume "\<exists>m \<in> set (blockMeshes s). meshPosition m = cornerOf s g"
  then obtain m where m: "m \<in> set (blockMeshes s)" and p: "meshPosition m = cornerOf s g"
    by blast
  obtain h where h: "blocks s (positionToKey h) = Some m" and q: "meshPosition m = cornerOf s h"
    using wellPlaced_mesh_key [OF wp m] by blast
  have hb: "hasBlock s h"
    using h by (simp add: hasBlock_def)
  have r: "\<bar>gx h\<bar> \<le> 2 ^ 31" "\<bar>gy h\<bar> \<le> 2 ^ 31" "\<bar>gz h\<bar> \<le> 2 ^ 31"
    using range [OF hb] by simp_all
  have "cornerOf s h = cornerOf s g"
    by (rule trans [OF q [symmetric] p])
  then have "gx h = gx g \<and> gy h = gy g \<and> gz h = gz g"
    by (simp add: cornerOf_exact [OF size r] cornerOf_exact [OF size g])
  then have "h = g"
    by (cases h, cases g) simp
  then show "hasBlock s g"
    using hb by simp
qed



end
